theory Spec2Isabelle
  imports Main "HOL-Library.Sublist"
begin

section \<open>Quick Reminder (src/App.js): the reminder lifecycle\<close>

text \<open>
  The component \<open>App\<close> keeps a list of pending reminders in React state, schedules
  notifications through \<open>expo-notifications\<close> and removes reminders when they are
  cancelled, delivered or expired.

  Conventions of the embedding.
  \<^item> A JavaScript string is a \<^typ>\<open>string\<close>: a list of code units below 256.
  \<^item> A JavaScript number is a \<open>number\<close>: \<open>NaN\<close>, an infinity, or an integer that
    binary64 represents. The numbers of this program are integers throughout
    (\<open>parseInt\<close>, products with integer constants, a sum with the clock), and every
    operation rounds its exact result to the nearest binary64 value, ties to even,
    overflowing to an infinity. The sign of zero is not kept: nothing here tells
    \<open>-0\<close> from \<open>0\<close>.
  \<^item> A \<open>Date\<close> is its time value, the milliseconds since the epoch, with \<open>None\<close> for
    an Invalid Date: the time value is \<open>NaN\<close> when the argument of \<open>new Date\<close> is not
    finite or exceeds \<open>8.64 * 10^15\<close> in magnitude. The field \<open>scheduledFor\<close> holds
    \<open>trigger.toISOString()\<close>, which throws a \<open>RangeError\<close> on an Invalid Date, and is
    only ever read back through \<open>new Date(reminder.scheduledFor).getTime()\<close>; the ISO
    string has millisecond precision, so the field is modelled by the time value it
    denotes.
  \<^item> A \<open>setX(updater)\<close> of React state is applied at once to the current state.
  \<^item> The clock (\<open>Date.now()\<close>, \<open>new Date().getTime()\<close>) and the answers of the
    notification module are parameters of the operations that consult them. An
    \<open>await\<close> is the answer of the awaited call; no other handler runs in between.
  \<^item> \<open>AppState.currentState\<close> and the states passed to the listener are state names
    (strings).
\<close>

subsection \<open>Numbers\<close>

text \<open>
  The values of the JavaScript type Number that occur: \<open>NaN\<close>, the two infinities and
  the integers (those that binary64 represents).
\<close>

datatype number = NaN | NegInfinity | Number int | Infinity

text \<open>
  Rounding a magnitude (a non-negative integer) to binary64. A magnitude below
  \<open>2^53\<close> is represented exactly. Otherwise \<open>shiftCount m\<close> is the number of low bits
  that do not fit into the 53 bits of the significand, and \<open>m\<close> is rounded to the
  nearest multiple of \<open>2 ^ shiftCount m\<close>, a tie going to the even multiple.
\<close>

function shiftCount :: "int \<Rightarrow> nat" where
  "shiftCount m = (if m < 9007199254740992 then 0 else Suc (shiftCount (m div 2)))"
  by pat_completeness auto
termination
  by (relation "measure nat") auto

declare shiftCount.simps [simp del]

definition roundTiesToEven :: "int \<Rightarrow> int" where
  "roundTiesToEven m =
     (let q = 2 ^ shiftCount m; k = m div q; r = m mod q
      in if 2 * r < q then k * q
         else if q < 2 * r then (k + 1) * q
         else if even k then k * q
         else (k + 1) * q)"

text \<open>The Number value of a mathematical integer; \<open>2^1024\<close> and beyond is an infinity.\<close>

definition toNumber :: "int \<Rightarrow> number" where
  "toNumber x =
     (let m = roundTiesToEven \<bar>x\<bar>
      in if 2 ^ 1024 \<le> m then (if x < 0 then NegInfinity else Infinity)
         else Number (if x < 0 then - m else m))"

text \<open>The operators \<open>*\<close> and \<open>+\<close>, the function \<open>isNaN\<close> and the comparison \<open>x <= 0\<close>.\<close>

definition numberTimes :: "number \<Rightarrow> number \<Rightarrow> number" where
  "numberTimes x y =
     (case (x, y) of
        (Number a, Number b) \<Rightarrow> toNumber (a * b)
      | (NaN, _) \<Rightarrow> NaN
      | (_, NaN) \<Rightarrow> NaN
      | (Number a, Infinity) \<Rightarrow> if a = 0 then NaN else if 0 < a then Infinity else NegInfinity
      | (Number a, NegInfinity) \<Rightarrow> if a = 0 then NaN else if 0 < a then NegInfinity else Infinity
      | (Infinity, Number b) \<Rightarrow> if b = 0 then NaN else if 0 < b then Infinity else NegInfinity
      | (NegInfinity, Number b) \<Rightarrow> if b = 0 then NaN else if 0 < b then NegInfinity else Infinity
      | (Infinity, Infinity) \<Rightarrow> Infinity
      | (NegInfinity, NegInfinity) \<Rightarrow> Infinity
      | (Infinity, NegInfinity) \<Rightarrow> NegInfinity
      | (NegInfinity, Infinity) \<Rightarrow> NegInfinity)"

definition numberPlus :: "number \<Rightarrow> number \<Rightarrow> number" where
  "numberPlus x y =
     (case (x, y) of
        (Number a, Number b) \<Rightarrow> toNumber (a + b)
      | (NaN, _) \<Rightarrow> NaN
      | (_, NaN) \<Rightarrow> NaN
      | (Infinity, NegInfinity) \<Rightarrow> NaN
      | (NegInfinity, Infinity) \<Rightarrow> NaN
      | (Infinity, _) \<Rightarrow> Infinity
      | (_, Infinity) \<Rightarrow> Infinity
      | (NegInfinity, _) \<Rightarrow> NegInfinity
      | (_, NegInfinity) \<Rightarrow> NegInfinity)"

definition isNaN :: "number \<Rightarrow> bool" where
  "isNaN x = (x = NaN)"

definition lessEqualZero :: "number \<Rightarrow> bool" where
  "lessEqualZero x =
     (case x of NaN \<Rightarrow> False | NegInfinity \<Rightarrow> True | Number a \<Rightarrow> a \<le> 0 | Infinity \<Rightarrow> False)"

text \<open>
  \<open>new Date(value)\<close> for a number: the time value is the number when it is finite and
  at most \<open>8.64 * 10^15\<close> in magnitude; otherwise the date is an Invalid Date.
\<close>

definition newDate :: "number \<Rightarrow> int option" where
  "newDate x =
     (case x of
        Number t \<Rightarrow> if \<bar>t\<bar> \<le> 8640000000000000 then Some t else None
      | _ \<Rightarrow> None)"

subsection \<open>State\<close>

text \<open>The objects pushed onto \<open>reminders\<close> by \<open>scheduleReminder\<close>.\<close>

record reminder =
  id' :: string
  text' :: string
  timeValue :: number
  timeUnit :: string
  scheduledFor :: int

text \<open>
  The \<open>useState\<close> cells of \<open>App\<close> and the \<open>appState\<close> ref (\<open>appState.current\<close>). The
  cells \<open>timeValue\<close> and \<open>timeUnit\<close> share their names with fields of the reminder
  objects; the fields of the reminder are written \<open>reminder.timeValue\<close> and
  \<open>reminder.timeUnit\<close> below.
\<close>

record app_state =
  reminderText :: string
  timeValue :: string
  timeUnit :: string
  reminders :: "reminder list"
  toastVisible :: bool
  toastMessage :: string
  appState :: string

subsection \<open>parseInt\<close>

text \<open>
  \<open>parseInt(string)\<close> with no radix (ECMAScript, \<open>parseInt ( string, radix )\<close>): strip
  leading white space, read a sign, read the prefix \<open>0x\<close>/\<open>0X\<close> (radix 16, otherwise
  radix 10), take the longest prefix of digits of the radix; \<open>NaN\<close> if that prefix is
  empty, else the Number value of the signed integer the prefix denotes. (Beyond 20
  significant decimal digits an implementation may read the rest as zeros; the
  model reads every digit.)
\<close>

definition isWhiteSpace :: "char \<Rightarrow> bool" where
  "isWhiteSpace c = (of_char c \<in> {9, 10, 11, 12, 13, 32, 160 :: nat})"

definition digitValue :: "char \<Rightarrow> nat option" where
  "digitValue c =
     (let n = (of_char c :: nat) in
      if 48 \<le> n \<and> n \<le> 57 then Some (n - 48)
      else if 97 \<le> n \<and> n \<le> 122 then Some (n - 87)
      else if 65 \<le> n \<and> n \<le> 90 then Some (n - 55)
      else None)"

definition isRadixDigit :: "nat \<Rightarrow> char \<Rightarrow> bool" where
  "isRadixDigit R c = (case digitValue c of None \<Rightarrow> False | Some d \<Rightarrow> d < R)"

text \<open>The value of a digit string in radix \<open>R\<close>; it is applied to digits of the radix only.\<close>

definition radixValue :: "nat \<Rightarrow> string \<Rightarrow> int" where
  "radixValue R Z =
     foldl (\<lambda>acc c. acc * int R + (case digitValue c of None \<Rightarrow> 0 | Some d \<Rightarrow> int d)) 0 Z"

definition stripSign :: "string \<Rightarrow> int \<times> string" where
  "stripSign S =
     (case S of
        [] \<Rightarrow> (1, S)
      | c # rest \<Rightarrow>
          if c = CHR ''-'' then (- 1, rest)
          else if c = CHR ''+'' then (1, rest)
          else (1, S))"

definition stripPrefix :: "string \<Rightarrow> nat \<times> string" where
  "stripPrefix S =
     (case S of
        c # x # rest \<Rightarrow>
          if c = CHR ''0'' \<and> (x = CHR ''x'' \<or> x = CHR ''X'') then (16, rest) else (10, S)
      | _ \<Rightarrow> (10, S))"

definition parseInt :: "string \<Rightarrow> number" where
  "parseInt inputString =
     (let (sign, S) = stripSign (dropWhile isWhiteSpace inputString);
          (R, S') = stripPrefix S;
          Z = takeWhile (isRadixDigit R) S'
      in if Z = [] then NaN else toNumber (sign * radixValue R Z))"

subsection \<open>Duration conversion\<close>

text \<open>
  \<open>getMilliseconds(value, unit)\<close>: the \<open>switch\<close> on the unit, with its \<open>default\<close> branch.
  The products associate to the left, and each of them rounds.
\<close>

definition getMilliseconds :: "string \<Rightarrow> string \<Rightarrow> number" where
  "getMilliseconds value' unit' =
     (let numValue = parseInt value' in
      if unit' = ''seconds'' then numberTimes numValue (Number 1000)
      else if unit' = ''minutes'' then
        numberTimes (numberTimes numValue (Number 60)) (Number 1000)
      else if unit' = ''hours'' then
        numberTimes (numberTimes (numberTimes numValue (Number 60)) (Number 60)) (Number 1000)
      else numberTimes numValue (Number 1000))"

subsection \<open>The notification module and the outcome of an asynchronous operation\<close>

text \<open>
  The argument of \<open>Notifications.scheduleNotificationAsync\<close>, as \<open>scheduleReminder\<close>
  builds it.
\<close>

record notification_content =
  title :: string
  body :: string
  sound :: bool

record notification_request =
  content :: notification_content
  trigger :: "int option"

text \<open>
  What an \<open>await\<close> or a statement can throw: the rejection of a promise of the
  notification module, and the \<open>RangeError\<close> of \<open>toISOString\<close> on an Invalid Date.
\<close>

datatype error = GatewayError | RangeError

datatype gateway_call = Schedule notification_request | Cancel string

text \<open>
  One run of an \<open>async\<close> function of the component: the calls it made to the
  notification module, whether it completed (\<open>Inr ()\<close>) or threw an error that nothing
  caught (\<open>Inl\<close>), and the component state it left.
\<close>

record run =
  gateway_calls :: "gateway_call list"
  result :: "error + unit"
  state_after :: app_state

subsection \<open>Store operations and toasts\<close>

definition showToast :: "string \<Rightarrow> app_state \<Rightarrow> app_state" where
  "showToast message s = s\<lparr>toastMessage := message, toastVisible := True\<rparr>"

definition cleanupExpiredReminders :: "int \<Rightarrow> app_state \<Rightarrow> app_state" where
  "cleanupExpiredReminders now s =
     s\<lparr>reminders := filter (\<lambda>r. let reminderTime = scheduledFor r in reminderTime > now)
                             (reminders s)\<rparr>"

definition cleanupReminder :: "string \<Rightarrow> app_state \<Rightarrow> app_state" where
  "cleanupReminder ident s = s\<lparr>reminders := filter (\<lambda>r. id' r \<noteq> ident) (reminders s)\<rparr>"

subsection \<open>Listeners\<close>

text \<open>The listener that \<open>setupNotificationHandler\<close> registers.\<close>

definition notificationReceived :: "string \<Rightarrow> app_state \<Rightarrow> app_state" where
  "notificationReceived identifier s = cleanupReminder identifier s"

text \<open>
  \<open>str.match(/inactive|background/)\<close> is truthy when one of the two words occurs
  somewhere in \<open>str\<close>.
\<close>

fun occursIn :: "string \<Rightarrow> string \<Rightarrow> bool" where
  "occursIn word [] = (word = [])"
| "occursIn word (c # cs) = (prefix word (c # cs) \<or> occursIn word cs)"

definition matchInactiveBackground :: "string \<Rightarrow> bool" where
  "matchInactiveBackground str = (occursIn ''inactive'' str \<or> occursIn ''background'' str)"

text \<open>The listener that \<open>setupAppStateHandler\<close> registers.\<close>

definition appStateChange :: "int \<Rightarrow> string \<Rightarrow> app_state \<Rightarrow> app_state" where
  "appStateChange now nextAppState s =
     (let s' = (if matchInactiveBackground (appState s) \<and> nextAppState = ''active''
                then cleanupExpiredReminders now s else s)
      in s'\<lparr>appState := nextAppState\<rparr>)"

subsection \<open>Scheduling and cancelling\<close>

text \<open>
  \<open>scheduleReminder\<close>, run at clock reading \<open>now\<close> (what \<open>Date.now()\<close> returns)
  against a notification module whose \<open>scheduleNotificationAsync\<close> resolves with an
  identifier (\<open>Inr\<close>) or rejects (\<open>Inl\<close>). Everything from \<open>getMilliseconds\<close> to the
  success toast is inside the \<open>try\<close>. The reminder object, and with it
  \<open>trigger.toISOString()\<close>, is built when React runs the updater of \<open>setReminders\<close>:
  with an Invalid Date the updater throws a \<open>RangeError\<close> that the \<open>catch\<close> does not
  see, the render fails and none of the queued state updates takes effect.
\<close>

definition scheduleReminder ::
  "int \<Rightarrow> (notification_request \<Rightarrow> error + string) \<Rightarrow> app_state \<Rightarrow> run" where
  "scheduleReminder now scheduleNotificationAsync s =
     (if reminderText s = [] \<or> timeValue s = [] then
        \<lparr>gateway_calls = [], result = Inr (),
         state_after = showToast ''Please enter both reminder text and time'' s\<rparr>
      else
        let numValue = parseInt (timeValue s) in
        if isNaN numValue \<or> lessEqualZero numValue then
          \<lparr>gateway_calls = [], result = Inr (),
           state_after = showToast ''Please enter a valid number'' s\<rparr>
        else
          (let milliseconds = getMilliseconds (timeValue s) (timeUnit s);
               trigger = newDate (numberPlus (Number now) milliseconds);
               request = \<lparr>content = \<lparr>title = ''Reminder!'', body = reminderText s,
                                      sound = True\<rparr>,
                          trigger = trigger\<rparr>
           in (case scheduleNotificationAsync request of
                 Inl e \<Rightarrow>
                   \<lparr>gateway_calls = [Schedule request], result = Inr (),
                    state_after = showToast ''Error setting reminder'' s\<rparr>
               | Inr ident \<Rightarrow>
                   (case trigger of
                      None \<Rightarrow>
                        \<lparr>gateway_calls = [Schedule request], result = Inl RangeError,
                         state_after = s\<rparr>
                    | Some fireTime \<Rightarrow>
                        \<lparr>gateway_calls = [Schedule request], result = Inr (),
                         state_after =
                           showToast ''Reminder set successfully''
                             (s\<lparr>reminders := reminders s @
                                  [\<lparr>id' = ident, text' = reminderText s,
                                    reminder.timeValue = numValue,
                                    reminder.timeUnit = timeUnit s,
                                    scheduledFor = fireTime\<rparr>],
                                reminderText := [],
                                timeValue := []\<rparr>)\<rparr>))))"

text \<open>
  \<open>cancelReminder\<close>: the \<open>await\<close> is not inside a \<open>try\<close>, so a rejection of
  \<open>cancelScheduledNotificationAsync\<close> ends the function before \<open>cleanupReminder\<close>.
\<close>

definition cancelReminder :: "(string \<Rightarrow> error + unit) \<Rightarrow> string \<Rightarrow> app_state \<Rightarrow> run" where
  "cancelReminder cancelScheduledNotificationAsync ident s =
     (case cancelScheduledNotificationAsync ident of
        Inl e \<Rightarrow> \<lparr>gateway_calls = [Cancel ident], result = Inl e, state_after = s\<rparr>
      | Inr _ \<Rightarrow>
          \<lparr>gateway_calls = [Cancel ident], result = Inr (),
           state_after = showToast ''Reminder cancelled'' (cleanupReminder ident s)\<rparr>)"

subsection \<open>Initial state and sample data\<close>

text \<open>
  The state of the first render: the initial values of the \<open>useState\<close> cells, and
  \<open>AppState.currentState\<close> in the ref.
\<close>

definition initialState :: "string \<Rightarrow> app_state" where
  "initialState currentState =
     \<lparr>reminderText = [], timeValue = [], timeUnit = ''minutes'', reminders = [],
      toastVisible = False, toastMessage = [], appState = currentState\<rparr>"

text \<open>A reminder as the scenario of the specification schedules it.\<close>

definition callMom :: "string \<Rightarrow> int \<Rightarrow> reminder" where
  "callMom ident fireAt =
     \<lparr>id' = ident, text' = ''Call mom'', reminder.timeValue = Number 2,
      reminder.timeUnit = ''minutes'', scheduledFor = fireAt\<rparr>"

text \<open>The form filled in as in that scenario: the label and the magnitude \<open>2\<close>.\<close>

definition callMomInput :: app_state where
  "callMomInput = (initialState ''active'')\<lparr>reminderText := ''Call mom'', timeValue := ''2''\<rparr>"


text \<open>
  Notification modules for the examples: one whose calls resolve (scheduling returns
  the given identifier) and one whose calls reject.
\<close>

definition scheduleResolves :: "string \<Rightarrow> notification_request \<Rightarrow> error + string" where
  "scheduleResolves ident request = Inr ident"


definition cancelResolves :: "string \<Rightarrow> error + unit" where
  "cancelResolves ident = Inr ()"

definition cancelRejects :: "string \<Rightarrow> error + unit" where
  "cancelRejects ident = Inl GatewayError"

text \<open>
  The decimal numeral of a natural number: what a user types for it, and what
  \<open>String(n)\<close> is for a non-negative integer below \<open>10^21\<close>.
\<close>

definition digitChar :: "nat \<Rightarrow> char" where
  "digitChar d = char_of (48 + d)"

fun decimal :: "nat \<Rightarrow> string" where
  "decimal n = (if n < 10 then [digitChar n] else decimal (n div 10) @ [digitChar (n mod 10)])"

declare decimal.simps [simp del]

section \<open>Properties\<close>

subsection \<open>Rounding to binary64\<close>

text \<open>
  \<open>shiftCount m\<close> is at most any \<open>k\<close> for which \<open>m div 2 ^ k\<close> fits the significand, so
  a magnitude \<open>a * 2 ^ k\<close> with \<open>a\<close> below \<open>2^53\<close> is represented exactly.
\<close>

lemma shiftCount_small: "m < 9007199254740992 \<Longrightarrow> shiftCount m = 0"
  by (subst shiftCount.simps) simp

lemma shiftCount_le: "m div 2 ^ k < 9007199254740992 \<Longrightarrow> shiftCount m \<le> k"
proof (induction k arbitrary: m)
  case 0
  then show ?case by (simp add: shiftCount_small)
next
  case (Suc k)
  show ?case
  proof (cases "m < 9007199254740992")
    case True
    then show ?thesis by (simp add: shiftCount_small)
  next
    case False
    have "(m div 2) div 2 ^ k = m div 2 ^ Suc k"
      by (simp add: zdiv_zmult2_eq)
    then have "shiftCount (m div 2) \<le> k"
      using Suc by simp
    with False show ?thesis
      by (subst shiftCount.simps) simp
  qed
qed

lemma roundTiesToEven_scaled:
  assumes "0 \<le> a" and "a < 9007199254740992"
  shows "roundTiesToEven (a * 2 ^ k) = a * 2 ^ k"
proof -
  let ?m = "a * 2 ^ k"
  have "?m div 2 ^ k = a" by simp
  then have le: "shiftCount ?m \<le> k"
    using assms(2) shiftCount_le [of ?m k] by simp
  then have "(2::int) ^ shiftCount ?m dvd 2 ^ k"
    by (rule le_imp_power_dvd)
  then have dvd: "(2::int) ^ shiftCount ?m dvd ?m"
    by (rule dvd_mult)
  then have r: "?m mod 2 ^ shiftCount ?m = 0"
    by simp
  have q: "(0::int) < 2 ^ shiftCount ?m" by simp
  have "?m div 2 ^ shiftCount ?m * 2 ^ shiftCount ?m = ?m"
    using dvd by simp
  then show ?thesis
    unfolding roundTiesToEven_def Let_def r using q by simp
qed

lemma toNumber_scaled:
  assumes "0 \<le> a" and "a < 9007199254740992" and "k \<le> 7"
  shows "toNumber (a * 2 ^ k) = Number (a * 2 ^ k)"
proof -
  have "(2::int) ^ k \<le> 2 ^ 7"
    using assms(3) by (intro power_increasing) auto
  then have "a * 2 ^ k \<le> a * 2 ^ 7"
    using assms(1) by (intro mult_left_mono) auto
  also have "\<dots> < 2 ^ 1024"
    using assms(2) by simp
  finally have small: "\<not> 2 ^ 1024 \<le> a * 2 ^ k" by simp
  have nonneg: "0 \<le> a * 2 ^ k" using assms(1) by simp
  show ?thesis
    using small nonneg
    by (simp add: toNumber_def roundTiesToEven_scaled [OF assms(1,2)] Let_def)
qed

lemma toNumber_small:
  assumes "\<bar>x\<bar> < 9007199254740992"
  shows "toNumber x = Number x"
proof -
  have "roundTiesToEven \<bar>x\<bar> = \<bar>x\<bar>"
    using roundTiesToEven_scaled [of "\<bar>x\<bar>" 0] assms by simp
  moreover have "\<not> 2 ^ 1024 \<le> \<bar>x\<bar>" using assms by simp
  ultimately show ?thesis
    by (simp add: toNumber_def Let_def)
qed

subsection \<open>parseInt on decimal numerals\<close>

lemmas parseInt_defs = parseInt_def stripSign_def stripPrefix_def isWhiteSpace_def
  isRadixDigit_def digitValue_def radixValue_def

lemma parseInt_Nil: "parseInt [] = NaN"
  by (simp add: parseInt_defs)

lemma digitValue_digitChar: "d < 10 \<Longrightarrow> digitValue (digitChar d) = Some d"
  by (simp add: digitValue_def digitChar_def)

lemma isRadixDigit_digitChar: "d < 10 \<Longrightarrow> isRadixDigit 10 (digitChar d)"
  by (simp add: isRadixDigit_def digitValue_digitChar)

lemma digitChar_plain:
  assumes "d < 10"
  shows "\<not> isWhiteSpace (digitChar d)" "digitChar d \<noteq> CHR ''-''" "digitChar d \<noteq> CHR ''+''"
    "digitChar d \<noteq> CHR ''x''" "digitChar d \<noteq> CHR ''X''"
proof -
  have v: "of_char (digitChar d) = 48 + d"
    using assms by (simp add: digitChar_def)
  show "\<not> isWhiteSpace (digitChar d)"
    using assms by (simp add: isWhiteSpace_def v)
  have "of_char (digitChar d) \<noteq> (of_char CHR ''-'' :: nat)" using assms by (simp add: v)
  then show "digitChar d \<noteq> CHR ''-''" by auto
  have "of_char (digitChar d) \<noteq> (of_char CHR ''+'' :: nat)" using assms by (simp add: v)
  then show "digitChar d \<noteq> CHR ''+''" by auto
  have "of_char (digitChar d) \<noteq> (of_char CHR ''x'' :: nat)" using assms by (simp add: v)
  then show "digitChar d \<noteq> CHR ''x''" by auto
  have "of_char (digitChar d) \<noteq> (of_char CHR ''X'' :: nat)" using assms by (simp add: v)
  then show "digitChar d \<noteq> CHR ''X''" by auto
qed

lemma decimal_not_Nil: "decimal n \<noteq> []"
  by (subst decimal.simps) simp

lemma decimal_all_digits: "\<forall>c \<in> set (decimal n). \<exists>d < 10. c = digitChar d"
proof (induction n rule: decimal.induct)
  case (1 n)
  show ?case
  proof (cases "n < 10")
    case True
    then show ?thesis by (subst decimal.simps) auto
  next
    case False
    have "\<exists>d<10. digitChar (n mod 10) = digitChar d"
      by (rule exI [of _ "n mod 10"]) simp
    with False 1 show ?thesis by (subst decimal.simps) auto
  qed
qed

lemma radixValue_snoc:
  "radixValue R (xs @ [c]) =
     radixValue R xs * int R + (case digitValue c of None \<Rightarrow> 0 | Some d \<Rightarrow> int d)"
  by (simp add: radixValue_def)

lemma radixValue_decimal: "radixValue 10 (decimal n) = int n"
proof (induction n rule: decimal.induct)
  case (1 n)
  show ?case
  proof (cases "n < 10")
    case True
    then show ?thesis
      by (subst decimal.simps) (simp add: radixValue_def digitValue_digitChar)
  next
    case False
    have "radixValue 10 (decimal n) = radixValue 10 (decimal (n div 10)) * 10 + int (n mod 10)"
      using False by (subst decimal.simps) (simp add: radixValue_snoc digitValue_digitChar)
    with False 1 show ?thesis by (simp add: zmod_int zdiv_int)
  qed
qed

lemma parseInt_digits:
  assumes "Z \<noteq> []" and "\<forall>c \<in> set Z. \<exists>d < 10. c = digitChar d"
  shows "parseInt Z = toNumber (radixValue 10 Z)"
proof -
  obtain c rest where Z: "Z = c # rest"
    using assms(1) by (cases Z) auto
  obtain d where d: "d < 10" "c = digitChar d"
    using assms(2) Z by auto
  have ws: "dropWhile isWhiteSpace Z = Z"
    using Z d digitChar_plain(1) by simp
  have sg: "stripSign Z = (1, Z)"
    using Z d digitChar_plain(2,3) by (simp add: stripSign_def)
  have px: "stripPrefix Z = (10, Z)"
  proof (cases rest)
    case Nil
    then show ?thesis using Z by (simp add: stripPrefix_def)
  next
    case (Cons x rest')
    then obtain e where "e < 10" "x = digitChar e"
      using assms(2) Z by auto
    then have "x \<noteq> CHR ''x''" "x \<noteq> CHR ''X''"
      using digitChar_plain(4,5) by auto
    then show ?thesis using Z Cons by (simp add: stripPrefix_def)
  qed
  have tw: "takeWhile (isRadixDigit 10) Z = Z"
    using assms(2) isRadixDigit_digitChar by (intro takeWhile_eq_all_conv [THEN iffD2]) auto
  show ?thesis
    using assms(1) by (simp add: parseInt_def ws sg px tw)
qed

text \<open>
  Every natural number below \<open>2^53\<close> is the value \<open>parseInt\<close> gives to its decimal
  numeral.
\<close>

lemma parseInt_decimal:
  assumes "n < 9007199254740992"
  shows "parseInt (decimal n) = Number (int n)"
proof -
  have "parseInt (decimal n) = toNumber (int n)"
    using parseInt_digits [OF decimal_not_Nil decimal_all_digits] radixValue_decimal by simp
  also have "\<dots> = Number (int n)"
    using assms by (intro toNumber_small) simp
  finally show ?thesis .
qed

lemmas number_defs = toNumber_def roundTiesToEven_def shiftCount.simps numberTimes_def
  numberPlus_def newDate_def isNaN_def lessEqualZero_def

lemma parseInt_2: "parseInt ''2'' = Number 2"
  by (simp add: parseInt_defs number_defs)

subsection \<open>Duration conversion\<close>

lemma numberTimes_scaled:
  assumes "0 \<le> a" and "a < 9007199254740992" and "k \<le> 7" and "x * y = a * 2 ^ k"
  shows "numberTimes (Number x) (Number y) = Number (x * y)"
  using toNumber_scaled [OF assms(1-3)] assms(4) by (simp add: numberTimes_def)

text \<open>
  Claim C7, amended. For every positive integer \<open>n\<close>, \<open>getMilliseconds\<close> applied to a
  value that \<open>parseInt\<close> reads as \<open>n\<close> returns \<open>n * 1000\<close> for the unit \<open>seconds\<close> when
  \<open>n\<close> is at most \<open>72057594037928\<close>, \<open>n * 60000\<close> for \<open>minutes\<close> when \<open>n\<close> is at most
  \<open>4803839602528\<close>, and \<open>n * 3600000\<close> for \<open>hours\<close> when \<open>n\<close> is at most
  \<open>320255973502\<close>: up to these bounds every product is a binary64 value. By
  \<open>parseInt_decimal\<close> each such \<open>n\<close> is read from its decimal numeral.
\<close>

theorem getMilliseconds_units:
  assumes "parseInt v = Number n" and "0 < n"
  shows "(n \<le> 72057594037928 \<longrightarrow> getMilliseconds v ''seconds'' = Number (n * 1000)) \<and>
         (n \<le> 4803839602528 \<longrightarrow> getMilliseconds v ''minutes'' = Number (n * 60000)) \<and>
         (n \<le> 320255973502 \<longrightarrow> getMilliseconds v ''hours'' = Number (n * 3600000))"
proof (intro conjI impI)
  assume b: "n \<le> 72057594037928"
  have "numberTimes (Number n) (Number 1000) = Number (n * 1000)"
  proof (cases "n = 72057594037928")
    case True
    then show ?thesis by (simp add: number_defs)
  next
    case False
    with b assms(2) show ?thesis
      by (intro numberTimes_scaled [of "n * 125" 3]) auto
  qed
  then show "getMilliseconds v ''seconds'' = Number (n * 1000)"
    using assms(1) by (simp add: getMilliseconds_def)
next
  assume b: "n \<le> 4803839602528"
  have "numberTimes (Number n) (Number 60) = Number (n * 60)"
    using b assms(2) by (intro numberTimes_scaled [of "n * 15" 2]) auto
  moreover have "numberTimes (Number (n * 60)) (Number 1000) = Number (n * 60 * 1000)"
    using b assms(2) by (intro numberTimes_scaled [of "n * 1875" 5]) auto
  ultimately show "getMilliseconds v ''minutes'' = Number (n * 60000)"
    using assms(1) by (simp add: getMilliseconds_def)
next
  assume b: "n \<le> 320255973502"
  have "numberTimes (Number n) (Number 60) = Number (n * 60)"
    using b assms(2) by (intro numberTimes_scaled [of "n * 15" 2]) auto
  moreover have "numberTimes (Number (n * 60)) (Number 60) = Number (n * 60 * 60)"
    using b assms(2) by (intro numberTimes_scaled [of "n * 225" 4]) auto
  moreover have "numberTimes (Number (n * 60 * 60)) (Number 1000) = Number (n * 60 * 60 * 1000)"
  proof (cases "n = 320255973502")
    case True
    then show ?thesis by (simp add: number_defs)
  next
    case False
    with b assms(2) show ?thesis
      by (intro numberTimes_scaled [of "n * 28125" 7]) auto
  qed
  ultimately show "getMilliseconds v ''hours'' = Number (n * 3600000)"
    using assms(1) by (simp add: getMilliseconds_def)
qed

theorem getMilliseconds_units_witness:
  "parseInt ''2'' = Number 2 \<and> (0::int) < 2 \<and>
   getMilliseconds ''2'' ''seconds'' = Number 2000 \<and>
   getMilliseconds ''2'' ''minutes'' = Number 120000 \<and>
   getMilliseconds ''2'' ''hours'' = Number 7200000 \<and>
   parseInt ''320255973502'' = Number 320255973502 \<and>
   getMilliseconds ''320255973502'' ''hours'' = Number 1152921504607200000"
proof -
  have p: "parseInt ''320255973502'' = Number 320255973502"
    by (simp add: parseInt_defs number_defs)
  show ?thesis
    using getMilliseconds_units [OF parseInt_2] getMilliseconds_units [OF p] parseInt_2 p
    by simp
qed

text \<open>
  Claim C7 as the specification states it holds for every positive integer. It does
  not: the products are binary64 products and round. The first magnitudes at which
  the result differs from the exact product are \<open>320255973503\<close> hours,
  \<open>4803839602529\<close> minutes and \<open>72057594037929\<close> seconds, and \<open>parseInt\<close> itself rounds
  \<open>9007199254740993\<close> to \<open>2^53\<close>.
\<close>

theorem getMilliseconds_rounds:
  "parseInt ''320255973503'' = Number 320255973503 \<and>
   getMilliseconds ''320255973503'' ''hours'' = Number 1152921504610800128 \<and>
   getMilliseconds ''320255973503'' ''hours'' \<noteq> Number (320255973503 * 3600000) \<and>
   getMilliseconds ''4803839602529'' ''minutes'' \<noteq> Number (4803839602529 * 60000) \<and>
   getMilliseconds ''72057594037929'' ''seconds'' \<noteq> Number (72057594037929 * 1000) \<and>
   parseInt ''9007199254740993'' = Number 9007199254740992"
  by (simp add: getMilliseconds_def parseInt_defs number_defs)

text \<open>The \<open>default\<close> branch: any other unit is converted as seconds.\<close>

lemma getMilliseconds_default:
  assumes "u \<notin> {''seconds'', ''minutes'', ''hours''}"
  shows "getMilliseconds v u = getMilliseconds v ''seconds''"
  using assms by (simp add: getMilliseconds_def)

subsection \<open>Removal by identifier and compaction\<close>

text \<open>
  Claim C5. Removal by identifier is idempotent and total: \<open>cleanupReminder\<close> is a
  function on every state and every identifier (it has no error result), removing an
  identifier a second time gives the state the first removal gave, and removing an
  identifier that no reminder of the store carries returns the state as it was.
\<close>

theorem cleanupReminder_idempotent:
  "cleanupReminder x (cleanupReminder x s) = cleanupReminder x s \<and>
   (x \<notin> id' ` set (reminders s) \<longrightarrow> cleanupReminder x s = s)"
proof -
  have "filter (\<lambda>r. id' r \<noteq> x) (reminders s) = reminders s"
    if "x \<notin> id' ` set (reminders s)"
    using that by (intro filter_True) auto
  then show ?thesis
    by (simp add: cleanupReminder_def)
qed

theorem cleanupReminder_idempotent_witness:
  "''n3'' \<notin> id' ` set [callMom ''n1'' 5000, callMom ''n2'' 15000] \<and>
   cleanupReminder ''n3''
     ((initialState ''active'')\<lparr>reminders := [callMom ''n1'' 5000, callMom ''n2'' 15000]\<rparr>) =
     (initialState ''active'')\<lparr>reminders := [callMom ''n1'' 5000, callMom ''n2'' 15000]\<rparr> \<and>
   reminders (cleanupReminder ''n1'' (cleanupReminder ''n1''
     ((initialState ''active'')\<lparr>reminders := [callMom ''n1'' 5000, callMom ''n2'' 15000]\<rparr>))) =
     [callMom ''n2'' 15000]"
  using cleanupReminder_idempotent
    [of "''n3''" "(initialState ''active'')\<lparr>reminders := [callMom ''n1'' 5000, callMom ''n2'' 15000]\<rparr>"]
    cleanupReminder_idempotent
    [of "''n1''" "(initialState ''active'')\<lparr>reminders := [callMom ''n1'' 5000, callMom ''n2'' 15000]\<rparr>"]
  by (simp add: callMom_def cleanupReminder_def)

text \<open>The delivery listener is this removal, so it is idempotent as well.\<close>

lemma notificationReceived_idempotent:
  "notificationReceived x (notificationReceived x s) = notificationReceived x s"
  by (simp add: notificationReceived_def cleanupReminder_def)

text \<open>
  Claim C4. For every state and every instant \<open>now\<close>, \<open>cleanupExpiredReminders\<close>
  replaces the store by exactly the reminders of the store whose fire time is strictly
  greater than \<open>now\<close>; a store with the fire times \<open>now - 5s\<close>, \<open>now + 5s\<close>, \<open>now + 1h\<close>
  is compacted to the last two.
\<close>

theorem cleanupExpiredReminders_exact:
  "reminders (cleanupExpiredReminders now s) =
     filter (\<lambda>r. now < scheduledFor r) (reminders s) \<and>
   set (reminders (cleanupExpiredReminders now s)) =
     {r \<in> set (reminders s). now < scheduledFor r} \<and>
   (reminders s = [a, b, c] \<and> scheduledFor a = now - 5000 \<and> scheduledFor b = now + 5000 \<and>
      scheduledFor c = now + 3600000 \<longrightarrow>
    reminders (cleanupExpiredReminders now s) = [b, c])"
proof -
  have store: "reminders (cleanupExpiredReminders now s) =
      filter (\<lambda>r. now < scheduledFor r) (reminders s)"
    by (simp add: cleanupExpiredReminders_def)
  have members: "set (reminders (cleanupExpiredReminders now s)) =
      {r \<in> set (reminders s). now < scheduledFor r}"
    unfolding store by auto
  have example: "reminders (cleanupExpiredReminders now s) = [b, c]"
    if "reminders s = [a, b, c] \<and> scheduledFor a = now - 5000 \<and> scheduledFor b = now + 5000 \<and>
      scheduledFor c = now + 3600000"
    unfolding store using that by simp
  from store members example show ?thesis
    by blast
qed

theorem cleanupExpiredReminders_exact_witness:
  "reminders (cleanupExpiredReminders 10000
     ((initialState ''active'')\<lparr>reminders :=
        [callMom ''n1'' 5000, callMom ''n2'' 15000, callMom ''n3'' 3610000]\<rparr>)) =
     [callMom ''n2'' 15000, callMom ''n3'' 3610000]"
  using cleanupExpiredReminders_exact
    [of 10000 "(initialState ''active'')\<lparr>reminders :=
        [callMom ''n1'' 5000, callMom ''n2'' 15000, callMom ''n3'' 3610000]\<rparr>"
      "callMom ''n1'' 5000" "callMom ''n2'' 15000" "callMom ''n3'' 3610000"]
  by (simp add: callMom_def)

subsection \<open>The resume trigger\<close>

text \<open>The search of the regular expression is the search for a contiguous sublist.\<close>

lemma occursIn_sublist: "occursIn word str \<longleftrightarrow> sublist word str"
  by (induction str) (auto simp: sublist_Cons_right)

text \<open>
  Claim C8. The resume trigger is edge-triggered. When the previous state (the ref)
  matches \<open>inactive\<close> or \<open>background\<close> and the next state is \<open>active\<close>, the
  listener's result is that of the compaction; on every other transition no reminder
  is touched. In both cases the ref then holds the next state. \<open>background\<close> and
  \<open>inactive\<close> match, \<open>active\<close> does not.
\<close>

theorem appStateChange_edge:
  "(matchInactiveBackground (appState s) \<and> next = ''active'' \<longrightarrow>
      appStateChange now next s = (cleanupExpiredReminders now s)\<lparr>appState := next\<rparr>) \<and>
   (\<not> (matchInactiveBackground (appState s) \<and> next = ''active'') \<longrightarrow>
      appStateChange now next s = s\<lparr>appState := next\<rparr>) \<and>
   appState (appStateChange now next s) = next \<and>
   matchInactiveBackground ''background'' \<and> matchInactiveBackground ''inactive'' \<and>
   \<not> matchInactiveBackground ''active''"
proof -
  have resume: "appStateChange now next s = (cleanupExpiredReminders now s)\<lparr>appState := next\<rparr>"
    if "matchInactiveBackground (appState s) \<and> next = ''active''"
    using that by (simp add: appStateChange_def)
  have other: "appStateChange now next s = s\<lparr>appState := next\<rparr>"
    if "\<not> (matchInactiveBackground (appState s) \<and> next = ''active'')"
    using that by (auto simp: appStateChange_def)
  have ref: "appState (appStateChange now next s) = next"
    by (simp add: appStateChange_def)
  have names: "matchInactiveBackground ''background''" "matchInactiveBackground ''inactive''"
    "\<not> matchInactiveBackground ''active''"
    by (simp_all add: matchInactiveBackground_def)
  from resume other ref names show ?thesis
    by blast
qed

theorem appStateChange_edge_witness:
  "reminders (appStateChange 10000 ''active''
     ((initialState ''background'')\<lparr>reminders := [callMom ''n1'' 5000, callMom ''n2'' 15000]\<rparr>)) =
     [callMom ''n2'' 15000] \<and>
   reminders (appStateChange 10000 ''active''
     ((initialState ''inactive'')\<lparr>reminders := [callMom ''n1'' 5000, callMom ''n2'' 15000]\<rparr>)) =
     [callMom ''n2'' 15000] \<and>
   reminders (appStateChange 10000 ''background''
     ((initialState ''active'')\<lparr>reminders := [callMom ''n1'' 5000, callMom ''n2'' 15000]\<rparr>)) =
     [callMom ''n1'' 5000, callMom ''n2'' 15000] \<and>
   reminders (appStateChange 10000 ''inactive''
     ((initialState ''background'')\<lparr>reminders := [callMom ''n1'' 5000, callMom ''n2'' 15000]\<rparr>)) =
     [callMom ''n1'' 5000, callMom ''n2'' 15000] \<and>
   reminders (appStateChange 10000 ''active''
     ((initialState ''active'')\<lparr>reminders := [callMom ''n1'' 5000, callMom ''n2'' 15000]\<rparr>)) =
     [callMom ''n1'' 5000, callMom ''n2'' 15000]"
  using
    appStateChange_edge [of "(initialState ''background'')\<lparr>reminders :=
      [callMom ''n1'' 5000, callMom ''n2'' 15000]\<rparr>" "''active''" 10000]
    appStateChange_edge [of "(initialState ''inactive'')\<lparr>reminders :=
      [callMom ''n1'' 5000, callMom ''n2'' 15000]\<rparr>" "''active''" 10000]
    appStateChange_edge [of "(initialState ''active'')\<lparr>reminders :=
      [callMom ''n1'' 5000, callMom ''n2'' 15000]\<rparr>" "''background''" 10000]
    appStateChange_edge [of "(initialState ''background'')\<lparr>reminders :=
      [callMom ''n1'' 5000, callMom ''n2'' 15000]\<rparr>" "''inactive''" 10000]
    appStateChange_edge [of "(initialState ''active'')\<lparr>reminders :=
      [callMom ''n1'' 5000, callMom ''n2'' 15000]\<rparr>" "''active''" 10000]
  by (simp add: initialState_def callMom_def cleanupExpiredReminders_def)

subsection \<open>Scheduling\<close>

text \<open>A sum with the clock that stays within the range of \<open>Date\<close> is exact and a valid date.\<close>

lemma newDate_plus:
  assumes "\<bar>now + ms\<bar> \<le> 8640000000000000"
  shows "newDate (numberPlus (Number now) (Number ms)) = Some (now + ms)"
proof -
  have "toNumber (now + ms) = Number (now + ms)"
    using assms by (intro toNumber_small) simp
  then show ?thesis
    using assms by (simp add: numberPlus_def newDate_def)
qed

text \<open>
  The three ways a run of \<open>scheduleReminder\<close> can go: a field is missing, the
  magnitude is not read as a positive number, or the notification module is called.
\<close>

lemma scheduleReminder_missing:
  assumes "reminderText s = [] \<or> timeValue s = []"
  shows "scheduleReminder now gw s =
    \<lparr>gateway_calls = [], result = Inr (),
     state_after = showToast ''Please enter both reminder text and time'' s\<rparr>"
  using assms by (simp add: scheduleReminder_def)

lemma scheduleReminder_invalid:
  assumes "reminderText s \<noteq> []" and "timeValue s \<noteq> []"
    and "(\<forall>n. parseInt (timeValue s) = Number n \<longrightarrow> n \<le> 0) \<and> parseInt (timeValue s) \<noteq> Infinity"
  shows "scheduleReminder now gw s =
    \<lparr>gateway_calls = [], result = Inr (),
     state_after = showToast ''Please enter a valid number'' s\<rparr>"
proof -
  have "isNaN (parseInt (timeValue s)) \<or> lessEqualZero (parseInt (timeValue s))"
    using assms(3) by (cases "parseInt (timeValue s)") (auto simp: isNaN_def lessEqualZero_def)
  then show ?thesis
    using assms(1,2) by (simp add: scheduleReminder_def Let_def)
qed

lemma scheduleReminder_valid:
  assumes "reminderText s \<noteq> []"
    and "parseInt (timeValue s) = Infinity \<or> (\<exists>n. parseInt (timeValue s) = Number n \<and> 0 < n)"
    and "request = \<lparr>content = \<lparr>title = ''Reminder!'', body = reminderText s, sound = True\<rparr>,
           trigger = newDate (numberPlus (Number now) (getMilliseconds (timeValue s) (timeUnit s)))\<rparr>"
  shows "scheduleReminder now gw s =
    (case gw request of
       Inl e \<Rightarrow> \<lparr>gateway_calls = [Schedule request], result = Inr (),
                 state_after = showToast ''Error setting reminder'' s\<rparr>
     | Inr ident \<Rightarrow>
         (case trigger request of
            None \<Rightarrow> \<lparr>gateway_calls = [Schedule request], result = Inl RangeError,
                      state_after = s\<rparr>
          | Some fireTime \<Rightarrow>
              \<lparr>gateway_calls = [Schedule request], result = Inr (),
               state_after = showToast ''Reminder set successfully''
                 (s\<lparr>reminders := reminders s @
                      [\<lparr>id' = ident, text' = reminderText s,
                        reminder.timeValue = parseInt (timeValue s),
                        reminder.timeUnit = timeUnit s, scheduledFor = fireTime\<rparr>],
                    reminderText := [], timeValue := []\<rparr>)\<rparr>))"
proof -
  have "timeValue s \<noteq> []"
    using assms(2) parseInt_Nil by auto
  moreover have "\<not> (isNaN (parseInt (timeValue s)) \<or> lessEqualZero (parseInt (timeValue s)))"
    using assms(2) by (auto simp: isNaN_def lessEqualZero_def)
  ultimately show ?thesis
    using assms(1,3) by (simp add: scheduleReminder_def Let_def split: sum.splits option.splits)
qed

lemma scheduleReminder_cases:
  obtains (missing) "reminderText s = [] \<or> timeValue s = []"
  | (invalid) "reminderText s \<noteq> []" "timeValue s \<noteq> []"
      "(\<forall>n. parseInt (timeValue s) = Number n \<longrightarrow> n \<le> 0) \<and> parseInt (timeValue s) \<noteq> Infinity"
  | (valid) "reminderText s \<noteq> []"
      "parseInt (timeValue s) = Infinity \<or> (\<exists>n. parseInt (timeValue s) = Number n \<and> 0 < n)"
  by (cases "parseInt (timeValue s)") force+

text \<open>A run leaves the store as it was or appends one reminder to it.\<close>

lemma scheduleReminder_store:
  "reminders (state_after (scheduleReminder now gw s)) = reminders s \<or>
   (\<exists>r. reminders (state_after (scheduleReminder now gw s)) = reminders s @ [r])"
proof (cases s rule: scheduleReminder_cases)
  case missing
  then show ?thesis by (simp add: scheduleReminder_missing showToast_def)
next
  case invalid
  then show ?thesis by (simp add: scheduleReminder_invalid showToast_def)
next
  case valid
  show ?thesis
    using scheduleReminder_valid [OF valid refl, of now gw]
    by (simp add: showToast_def split: sum.splits option.splits)
qed




text \<open>
  Claim C3. Validation comes before any call of the notification module and before any
  change of the store, and the first failure wins. With an empty label or an empty
  magnitude string the run makes no call and only shows the toast
  \<open>Please enter both reminder text and time\<close>. Otherwise, with a magnitude string that
  \<open>parseInt\<close> does not read as a positive number (it gives \<open>NaN\<close>, or a number that is
  zero or negative), the run makes no call and only shows the toast
  \<open>Please enter a valid number\<close>. Showing a toast leaves the store as it is, and the two
  messages differ.
\<close>

theorem scheduleReminder_validation:
  "(reminderText s = [] \<or> timeValue s = [] \<longrightarrow>
      gateway_calls (scheduleReminder now gw s) = [] \<and>
      state_after (scheduleReminder now gw s) =
        showToast ''Please enter both reminder text and time'' s) \<and>
   (reminderText s \<noteq> [] \<and> timeValue s \<noteq> [] \<and>
    (\<forall>n. parseInt (timeValue s) = Number n \<longrightarrow> n \<le> 0) \<and>
    parseInt (timeValue s) \<noteq> Infinity \<longrightarrow>
      gateway_calls (scheduleReminder now gw s) = [] \<and>
      state_after (scheduleReminder now gw s) = showToast ''Please enter a valid number'' s) \<and>
   reminders (showToast message s) = reminders s \<and>
   toastMessage (showToast message s) = message \<and>
   ''Please enter both reminder text and time'' \<noteq> ''Please enter a valid number''"
  using scheduleReminder_missing [of s now gw] scheduleReminder_invalid [of s now gw]
  by (simp add: showToast_def)

theorem scheduleReminder_validation_witness:
  "state_after (scheduleReminder 1000 (scheduleResolves ''n1'') (callMomInput\<lparr>reminderText := []\<rparr>)) =
     showToast ''Please enter both reminder text and time'' (callMomInput\<lparr>reminderText := []\<rparr>) \<and>
   state_after (scheduleReminder 1000 (scheduleResolves ''n1'') (callMomInput\<lparr>timeValue := ''0''\<rparr>)) =
     showToast ''Please enter a valid number'' (callMomInput\<lparr>timeValue := ''0''\<rparr>) \<and>
   state_after (scheduleReminder 1000 (scheduleResolves ''n1'') (callMomInput\<lparr>timeValue := ''-3''\<rparr>)) =
     showToast ''Please enter a valid number'' (callMomInput\<lparr>timeValue := ''-3''\<rparr>) \<and>
   state_after (scheduleReminder 1000 (scheduleResolves ''n1'') (callMomInput\<lparr>timeValue := ''abc''\<rparr>)) =
     showToast ''Please enter a valid number'' (callMomInput\<lparr>timeValue := ''abc''\<rparr>) \<and>
   gateway_calls (scheduleReminder 1000 (scheduleResolves ''n1'') (callMomInput\<lparr>timeValue := ''abc''\<rparr>)) = [] \<and>
   reminders (state_after
     (scheduleReminder 1000 (scheduleResolves ''n1'') (callMomInput\<lparr>timeValue := ''abc''\<rparr>))) = []"
proof -
  have p: "parseInt ''0'' = Number 0" "parseInt ''-3'' = Number (- 3)" "parseInt ''abc'' = NaN"
    by (simp_all add: parseInt_defs number_defs)
  show ?thesis
    using
      scheduleReminder_validation
        [of "callMomInput\<lparr>reminderText := []\<rparr>" 1000 "scheduleResolves ''n1''"]
      scheduleReminder_validation
        [of "callMomInput\<lparr>timeValue := ''0''\<rparr>" 1000 "scheduleResolves ''n1''"]
      scheduleReminder_validation
        [of "callMomInput\<lparr>timeValue := ''-3''\<rparr>" 1000 "scheduleResolves ''n1''"]
      scheduleReminder_validation
        [of "callMomInput\<lparr>timeValue := ''abc''\<rparr>" 1000 "scheduleResolves ''n1''"]
    by (simp add: p callMomInput_def initialState_def showToast_def)
qed







text \<open>
  Claim C9. The magnitude is parsed leniently: \<open>parseInt\<close> reads the leading digits and
  ignores the rest. The strings \<open>3x\<close> and \<open>2.9\<close> are no decimal numerals, yet they pass
  validation as \<open>3\<close> and \<open>2\<close>; the run calls the notification module, and the reminder
  it appends stores the truncated magnitude and a fire time computed from it (at any
  clock reading that leaves that fire time within the range of \<open>Date\<close>).
\<close>

theorem parseInt_lenient:
  "parseInt ''3x'' = Number 3 \<and> parseInt ''2.9'' = Number 2 \<and>
   takeWhile (isRadixDigit 10) ''3x'' = ''3'' \<and> takeWhile (isRadixDigit 10) ''2.9'' = ''2'' \<and>
   (\<bar>now + 3000\<bar> \<le> 8640000000000000 \<longrightarrow>
     gateway_calls (scheduleReminder now (scheduleResolves ident)
         (s\<lparr>reminderText := ''Call mom'', timeValue := ''3x'', timeUnit := ''seconds''\<rparr>)) =
       [Schedule \<lparr>content = \<lparr>title = ''Reminder!'', body = ''Call mom'', sound = True\<rparr>,
                  trigger = Some (now + 3000)\<rparr>] \<and>
     reminders (state_after (scheduleReminder now (scheduleResolves ident)
         (s\<lparr>reminderText := ''Call mom'', timeValue := ''3x'', timeUnit := ''seconds''\<rparr>))) =
       reminders s @ [\<lparr>id' = ident, text' = ''Call mom'', reminder.timeValue = Number 3,
                       reminder.timeUnit = ''seconds'', scheduledFor = now + 3000\<rparr>]) \<and>
   (\<bar>now + 2000\<bar> \<le> 8640000000000000 \<longrightarrow>
     reminders (state_after (scheduleReminder now (scheduleResolves ident)
         (s\<lparr>reminderText := ''Call mom'', timeValue := ''2.9'', timeUnit := ''seconds''\<rparr>))) =
       reminders s @ [\<lparr>id' = ident, text' = ''Call mom'', reminder.timeValue = Number 2,
                       reminder.timeUnit = ''seconds'', scheduledFor = now + 2000\<rparr>])"
proof -
  have a: "parseInt ''3x'' = Number 3" by (simp add: parseInt_defs number_defs)
  have b: "parseInt ''2.9'' = Number 2" by (simp add: parseInt_defs number_defs)
  have c: "takeWhile (isRadixDigit 10) ''3x'' = ''3''" "takeWhile (isRadixDigit 10) ''2.9'' = ''2''"
    by (simp_all add: isRadixDigit_def digitValue_def)
  have ma: "getMilliseconds ''3x'' ''seconds'' = Number 3000"
    by (simp add: getMilliseconds_def a number_defs)
  have mb: "getMilliseconds ''2.9'' ''seconds'' = Number 2000"
    by (simp add: getMilliseconds_def b number_defs)
  have d: "gateway_calls (scheduleReminder now (scheduleResolves ident)
       (s\<lparr>reminderText := ''Call mom'', timeValue := ''3x'', timeUnit := ''seconds''\<rparr>)) =
     [Schedule \<lparr>content = \<lparr>title = ''Reminder!'', body = ''Call mom'', sound = True\<rparr>,
                trigger = Some (now + 3000)\<rparr>]"
    if "\<bar>now + 3000\<bar> \<le> 8640000000000000"
    using newDate_plus [OF that]
    by (simp add: a ma scheduleReminder_def scheduleResolves_def isNaN_def lessEqualZero_def)
  have e: "reminders (state_after (scheduleReminder now (scheduleResolves ident)
       (s\<lparr>reminderText := ''Call mom'', timeValue := ''3x'', timeUnit := ''seconds''\<rparr>))) =
     reminders s @ [\<lparr>id' = ident, text' = ''Call mom'', reminder.timeValue = Number 3,
                     reminder.timeUnit = ''seconds'', scheduledFor = now + 3000\<rparr>]"
    if "\<bar>now + 3000\<bar> \<le> 8640000000000000"
    using newDate_plus [OF that]
    by (simp add: a ma scheduleReminder_def scheduleResolves_def isNaN_def lessEqualZero_def
        showToast_def)
  have f: "reminders (state_after (scheduleReminder now (scheduleResolves ident)
       (s\<lparr>reminderText := ''Call mom'', timeValue := ''2.9'', timeUnit := ''seconds''\<rparr>))) =
     reminders s @ [\<lparr>id' = ident, text' = ''Call mom'', reminder.timeValue = Number 2,
                     reminder.timeUnit = ''seconds'', scheduledFor = now + 2000\<rparr>]"
    if "\<bar>now + 2000\<bar> \<le> 8640000000000000"
    using newDate_plus [OF that]
    by (simp add: b mb scheduleReminder_def scheduleResolves_def isNaN_def lessEqualZero_def
        showToast_def)
  from a b c d e f show ?thesis
    by blast
qed

theorem parseInt_lenient_witness:
  "reminders (state_after (scheduleReminder 1000 (scheduleResolves ''n1'')
       (callMomInput\<lparr>reminderText := ''Call mom'', timeValue := ''3x'', timeUnit := ''seconds''\<rparr>))) =
     [\<lparr>id' = ''n1'', text' = ''Call mom'', reminder.timeValue = Number 3,
       reminder.timeUnit = ''seconds'', scheduledFor = 4000\<rparr>] \<and>
   reminders (state_after (scheduleReminder 1000 (scheduleResolves ''n1'')
       (callMomInput\<lparr>reminderText := ''Call mom'', timeValue := ''2.9'', timeUnit := ''seconds''\<rparr>))) =
     [\<lparr>id' = ''n1'', text' = ''Call mom'', reminder.timeValue = Number 2,
       reminder.timeUnit = ''seconds'', scheduledFor = 3000\<rparr>]"
  using parseInt_lenient [of 1000 "''n1''" callMomInput]
  by (simp add: callMomInput_def initialState_def)

subsection \<open>Cancelling\<close>

lemma length_filter_distinct:
  assumes "distinct (map f xs)" and "x \<in> f ` set xs"
  shows "length (filter (\<lambda>r. f r \<noteq> x) xs) = length xs - 1"
  using assms
proof (induction xs)
  case Nil
  then show ?case by simp
next
  case (Cons a xs)
  show ?case
  proof (cases "f a = x")
    case True
    then have "x \<notin> f ` set xs"
      using Cons.prems(1) by auto
    then have "filter (\<lambda>r. f r \<noteq> x) xs = xs"
      by (intro filter_True) auto
    with True show ?thesis by simp
  next
    case False
    then have "x \<in> f ` set xs"
      using Cons.prems(2) by auto
    moreover from this have "xs \<noteq> []" by auto
    ultimately show ?thesis
      using Cons False by (cases xs) auto
  qed
qed

text \<open>
  Claim C2, amended. Cancelling a reminder of a store with distinct
  identifiers calls \<open>cancelScheduledNotificationAsync\<close> once. When that call resolves,
  the reminder is removed and the toast \<open>Reminder cancelled\<close> is shown: a store of \<open>N\<close>
  reminders becomes a store of \<open>N - 1\<close> reminders without the cancelled one. The
  removal comes after the \<open>await\<close>, so it is gated on the call: when the call rejects,
  the store is left as it was.
\<close>

theorem cancelReminder_gated:
  assumes "distinct (map id' (reminders s))" and "x \<in> id' ` set (reminders s)"
  shows "gateway_calls (cancelReminder cancel x s) = [Cancel x] \<and>
    (cancel x = Inr () \<longrightarrow>
       result (cancelReminder cancel x s) = Inr () \<and>
       state_after (cancelReminder cancel x s) =
         showToast ''Reminder cancelled'' (cleanupReminder x s) \<and>
       length (reminders (state_after (cancelReminder cancel x s))) = length (reminders s) - 1 \<and>
       x \<notin> id' ` set (reminders (state_after (cancelReminder cancel x s))) \<and>
       toastMessage (state_after (cancelReminder cancel x s)) = ''Reminder cancelled'') \<and>
    (\<forall>e. cancel x = Inl e \<longrightarrow>
       reminders (state_after (cancelReminder cancel x s)) = reminders s)"
  using assms length_filter_distinct [of id' "reminders s" x]
  by (auto simp: cancelReminder_def cleanupReminder_def showToast_def split: sum.splits)

theorem cancelReminder_gated_witness:
  "distinct (map id' [callMom ''n1'' 5000, callMom ''n2'' 15000]) \<and>
   ''n1'' \<in> id' ` set [callMom ''n1'' 5000, callMom ''n2'' 15000] \<and>
   reminders (state_after (cancelReminder cancelResolves ''n1''
     ((initialState ''active'')\<lparr>reminders := [callMom ''n1'' 5000, callMom ''n2'' 15000]\<rparr>))) =
     [callMom ''n2'' 15000] \<and>
   toastMessage (state_after (cancelReminder cancelResolves ''n1''
     ((initialState ''active'')\<lparr>reminders := [callMom ''n1'' 5000, callMom ''n2'' 15000]\<rparr>))) =
     ''Reminder cancelled'' \<and>
   reminders (state_after (cancelReminder cancelRejects ''n1''
     ((initialState ''active'')\<lparr>reminders := [callMom ''n1'' 5000, callMom ''n2'' 15000]\<rparr>))) =
     [callMom ''n1'' 5000, callMom ''n2'' 15000]"
  using
    cancelReminder_gated [of "(initialState ''active'')\<lparr>reminders :=
      [callMom ''n1'' 5000, callMom ''n2'' 15000]\<rparr>" "''n1''" cancelResolves]
    cancelReminder_gated [of "(initialState ''active'')\<lparr>reminders :=
      [callMom ''n1'' 5000, callMom ''n2'' 15000]\<rparr>" "''n1''" cancelRejects]
  by (simp add: callMom_def cleanupReminder_def showToast_def cancelResolves_def cancelRejects_def)

text \<open>
  Claim C2 as the specification states it has the reminder removed and the toast
  shown also when the call rejects. They are not: the \<open>await\<close> throws, nothing catches it, and
  \<open>cleanupReminder\<close> and \<open>showToast\<close> are never reached. Cancelling \<open>n1\<close> in a store that
  holds just that reminder, with a call that rejects, leaves the reminder in the store
  (one reminder, not none) and shows no toast.
\<close>

theorem cancelReminder_rejected:
  "''n1'' \<in> id' ` set (reminders ((initialState ''active'')\<lparr>reminders := [callMom ''n1'' 5000]\<rparr>)) \<and>
   cancelReminder cancelRejects ''n1''
     ((initialState ''active'')\<lparr>reminders := [callMom ''n1'' 5000]\<rparr>) =
     \<lparr>gateway_calls = [Cancel ''n1''], result = Inl GatewayError,
      state_after = (initialState ''active'')\<lparr>reminders := [callMom ''n1'' 5000]\<rparr>\<rparr> \<and>
   \<not> (length (reminders (state_after (cancelReminder cancelRejects ''n1''
          ((initialState ''active'')\<lparr>reminders := [callMom ''n1'' 5000]\<rparr>)))) =
        length (reminders ((initialState ''active'')\<lparr>reminders := [callMom ''n1'' 5000]\<rparr>)) - 1) \<and>
   ''n1'' \<in> id' ` set (reminders (state_after (cancelReminder cancelRejects ''n1''
     ((initialState ''active'')\<lparr>reminders := [callMom ''n1'' 5000]\<rparr>)))) \<and>
   toastMessage (state_after (cancelReminder cancelRejects ''n1''
     ((initialState ''active'')\<lparr>reminders := [callMom ''n1'' 5000]\<rparr>))) \<noteq> ''Reminder cancelled'' \<and>
   toastVisible (state_after (cancelReminder cancelRejects ''n1''
     ((initialState ''active'')\<lparr>reminders := [callMom ''n1'' 5000]\<rparr>))) = False"
  by (simp add: cancelReminder_def initialState_def callMom_def cancelRejects_def)

subsection \<open>Frame\<close>

text \<open>
  Claim C10. Frame property: after a removal by identifier the reminders whose
  identifier differs from the removed one, and after a compaction the reminders whose
  fire time is strictly in the future, are the same records in the same order as
  before; the new store is a subsequence of the old one, so no record in it is new or
  changed in any field. The other operations do not modify a reminder either:
  scheduling keeps the old store as a prefix of the new one, and cancelling and the
  two listeners leave a subsequence of the old store.
\<close>

theorem cleanup_frame:
  "subseq (reminders (cleanupReminder x s)) (reminders s) \<and>
   filter (\<lambda>r. id' r \<noteq> x) (reminders (cleanupReminder x s)) =
     filter (\<lambda>r. id' r \<noteq> x) (reminders s) \<and>
   subseq (reminders (cleanupExpiredReminders now s)) (reminders s) \<and>
   filter (\<lambda>r. now < scheduledFor r) (reminders (cleanupExpiredReminders now s)) =
     filter (\<lambda>r. now < scheduledFor r) (reminders s) \<and>
   prefix (reminders s) (reminders (state_after (scheduleReminder now gw s))) \<and>
   subseq (reminders (state_after (cancelReminder cancel x s))) (reminders s) \<and>
   subseq (reminders (appStateChange now next s)) (reminders s) \<and>
   subseq (reminders (notificationReceived x s)) (reminders s)"
proof -
  have "subseq (reminders (cleanupReminder x s)) (reminders s)"
    and "filter (\<lambda>r. id' r \<noteq> x) (reminders (cleanupReminder x s)) =
      filter (\<lambda>r. id' r \<noteq> x) (reminders s)"
    by (simp_all add: cleanupReminder_def)
  moreover have "subseq (reminders (cleanupExpiredReminders now s)) (reminders s)"
    and "filter (\<lambda>r. now < scheduledFor r) (reminders (cleanupExpiredReminders now s)) =
      filter (\<lambda>r. now < scheduledFor r) (reminders s)"
    by (simp_all add: cleanupExpiredReminders_def)
  moreover have "prefix (reminders s) (reminders (state_after (scheduleReminder now gw s)))"
    using scheduleReminder_store [of now gw s] by auto
  moreover have "subseq (reminders (state_after (cancelReminder cancel x s))) (reminders s)"
    by (simp add: cancelReminder_def cleanupReminder_def showToast_def split: sum.splits)
  moreover have "subseq (reminders (appStateChange now next s)) (reminders s)"
    by (simp add: appStateChange_def cleanupExpiredReminders_def)
  moreover have "subseq (reminders (notificationReceived x s)) (reminders s)"
    by (simp add: notificationReceived_def cleanupReminder_def)
  ultimately show ?thesis by blast
qed

theorem cleanup_frame_witness:
  "reminders (cleanupReminder ''n2''
     ((initialState ''active'')\<lparr>reminders :=
        [callMom ''n1'' 5000, callMom ''n2'' 15000, callMom ''n3'' 3610000]\<rparr>)) =
     [callMom ''n1'' 5000, callMom ''n3'' 3610000] \<and>
   subseq [callMom ''n1'' 5000, callMom ''n3'' 3610000]
     [callMom ''n1'' 5000, callMom ''n2'' 15000, callMom ''n3'' 3610000] \<and>
   reminders (cleanupExpiredReminders 10000
     ((initialState ''active'')\<lparr>reminders :=
        [callMom ''n1'' 5000, callMom ''n2'' 15000, callMom ''n3'' 3610000]\<rparr>)) =
     [callMom ''n2'' 15000, callMom ''n3'' 3610000] \<and>
   subseq [callMom ''n2'' 15000, callMom ''n3'' 3610000]
     [callMom ''n1'' 5000, callMom ''n2'' 15000, callMom ''n3'' 3610000]"
  using cleanup_frame
    [of "''n2''" "(initialState ''active'')\<lparr>reminders :=
        [callMom ''n1'' 5000, callMom ''n2'' 15000, callMom ''n3'' 3610000]\<rparr>" 10000]
  by (simp add: callMom_def cleanupReminder_def cleanupExpiredReminders_def)

end
